theory Spec2Isabelle
  imports Complex_Main "HOL-Library.Multiset"
begin

section \<open>Python values used by the log analyzer\<close>

text \<open>
  The exceptions the two source files can raise on the paths modelled here. Every
  operation that can raise returns a sum, the exception on the left.
  Scope of the model: a file's content is a list of ASCII characters (decoding of
  multi-byte characters is outside the model), Python's \<^verbatim>\<open>int\<close> is HOL's
  unbounded \<^typ>\<open>int\<close>, and the result of Python's true division \<^verbatim>\<open>a / b\<close> of two
  integers is given as the exact rational quotient (CPython returns the double nearest
  to it).
\<close>

datatype py_error =
  FileNotFoundError | ValueError | ZeroDivisionError | KeyError | NameError | AttributeError

text \<open>\<^verbatim>\<open>str.isspace\<close> on the ASCII range: tab, line feed, vertical tab, form feed,
  carriage return, the four separators 0x1C..0x1F, and space.\<close>

definition py_isspace :: "char \<Rightarrow> bool" where
  "py_isspace c = (c \<in> set [CHR 0x09, CHR 0x0A, CHR 0x0B, CHR 0x0C, CHR 0x0D,
                             CHR 0x1C, CHR 0x1D, CHR 0x1E, CHR 0x1F, CHR 0x20])"

text \<open>\<^verbatim>\<open>s.strip(chars)\<close>: leading and trailing characters of the set are removed;
  \<^verbatim>\<open>s.strip()\<close> removes white space.\<close>

definition py_strip_by :: "(char \<Rightarrow> bool) \<Rightarrow> string \<Rightarrow> string" where
  "py_strip_by p s = rev (dropWhile p (rev (dropWhile p s)))"

definition py_strip :: "string \<Rightarrow> string" where
  "py_strip s = py_strip_by py_isspace s"

definition py_strip_chars :: "string \<Rightarrow> string \<Rightarrow> string" where
  "py_strip_chars chars s = py_strip_by (\<lambda>c. c \<in> set chars) s"

text \<open>\<^verbatim>\<open>s.startswith(p)\<close> and \<^verbatim>\<open>p in s\<close> (substring test).\<close>

definition py_startswith :: "string \<Rightarrow> string \<Rightarrow> bool" where
  "py_startswith s p = (take (length p) s = p)"

fun py_in :: "string \<Rightarrow> string \<Rightarrow> bool" where
  "py_in p [] = (p = [])"
| "py_in p (c # cs) = (py_startswith (c # cs) p \<or> py_in p cs)"

text \<open>\<^verbatim>\<open>s.split(sep)\<close> for a non-empty separator (the source splits on the
  literals \<^verbatim>\<open>"\n"\<close> and \<^verbatim>\<open>"in"\<close> only): the text is scanned from the left, each
  occurrence of the separator ends a piece, and the pieces between occurrences are
  kept even when empty, so the result always has at least one element.
  \<open>split_scan sep acc s\<close> carries the piece read so far, reversed, in \<open>acc\<close>.\<close>

fun split_scan :: "string \<Rightarrow> string \<Rightarrow> string \<Rightarrow> string list" where
  "split_scan sep acc [] = [rev acc]"
| "split_scan sep acc (c # cs) =
     (if py_startswith (c # cs) sep
      then rev acc # split_scan sep [] (drop (length sep - 1) cs)
      else split_scan sep (c # acc) cs)"

text \<open>\<^verbatim>\<open>int(s)\<close> in base 10 for an ASCII string: white space around the literal is
  skipped, where white space is space, tab, line feed, vertical tab, form feed and
  carriage return only (the separators 0x1C..0x1F, which \<^verbatim>\<open>str.strip\<close> removes,
  are not skipped); one sign is allowed; then decimal digits, where single underscores
  may stand between digits. A literal of more than 4300 digits is refused (the
  interpreter's default limit). Anything else raises ValueError (\<open>None\<close> here).\<close>

definition int_isspace :: "char \<Rightarrow> bool" where
  "int_isspace c = (c \<in> set [CHR 0x09, CHR 0x0A, CHR 0x0B, CHR 0x0C, CHR 0x0D, CHR 0x20])"

definition digit_val :: "char \<Rightarrow> int option" where
  "digit_val c = map_of [(CHR ''0'', 0), (CHR ''1'', 1), (CHR ''2'', 2), (CHR ''3'', 3),
                         (CHR ''4'', 4), (CHR ''5'', 5), (CHR ''6'', 6), (CHR ''7'', 7),
                         (CHR ''8'', 8), (CHR ''9'', 9)] c"

fun parse_digits :: "int \<Rightarrow> string \<Rightarrow> int option" where
  "parse_digits acc [] = Some acc"
| "parse_digits acc [c] =
     (case digit_val c of None \<Rightarrow> None | Some d \<Rightarrow> Some (10 * acc + d))"
| "parse_digits acc (c # d # ds) =
     (case digit_val c of
        Some v \<Rightarrow> parse_digits (10 * acc + v) (d # ds)
      | None \<Rightarrow>
          (if c = CHR ''_''
           then (case digit_val d of None \<Rightarrow> None
                 | Some v \<Rightarrow> parse_digits (10 * acc + v) ds)
           else None))"

definition max_str_digits :: nat where
  "max_str_digits = 4300"

definition parse_unsigned :: "string \<Rightarrow> int option" where
  "parse_unsigned s =
     (if max_str_digits < length (filter (\<lambda>c. digit_val c \<noteq> None) s) then None
      else (case s of [] \<Rightarrow> None
            | c # cs \<Rightarrow> (case digit_val c of None \<Rightarrow> None | Some v \<Rightarrow> parse_digits v cs)))"

definition py_int :: "string \<Rightarrow> int option" where
  "py_int s =
     (case py_strip_by int_isspace s of
        [] \<Rightarrow> None
      | c # cs \<Rightarrow>
          (if c = CHR ''-'' then map_option uminus (parse_unsigned cs)
           else if c = CHR ''+'' then parse_unsigned cs
           else parse_unsigned (c # cs)))"

text \<open>Python's \<^verbatim>\<open>a / b\<close> on integers.\<close>

definition true_div :: "int \<Rightarrow> int \<Rightarrow> py_error + rat" where
  "true_div a b = (if b = 0 then Inl ZeroDivisionError else Inr (of_int a / of_int b))"

section \<open>worker.py: Worker.process_chunk\<close>

text \<open>
  The file system is a map from paths to contents. \<^verbatim>\<open>open(filepath, "r")\<close> raises
  FileNotFoundError for a missing path. The file is opened in text mode, so
  \<^verbatim>\<open>\r\n\<close> and a lone \<^verbatim>\<open>\r\<close> are read as \<^verbatim>\<open>\n\<close>. \<^verbatim>\<open>file.seek(start)\<close> raises
  ValueError for a negative position; \<^verbatim>\<open>file.read(size)\<close> returns at most
  \<open>sz\<close> characters (the parameter \<^verbatim>\<open>size\<close>), and everything up to the end of
  the file when \<open>sz\<close> is negative.
\<close>

type_synonym filesystem = "string \<rightharpoonup> string"

fun universal_newlines :: "string \<Rightarrow> string" where
  "universal_newlines [] = []"
| "universal_newlines [c] = (if c = CHR 0x0D then [CHR 0x0A] else [c])"
| "universal_newlines (c # d # cs) =
     (if c = CHR 0x0D
      then (if d = CHR 0x0A then CHR 0x0A # universal_newlines cs
            else CHR 0x0A # universal_newlines (d # cs))
      else c # universal_newlines (d # cs))"

definition read_chunk :: "filesystem \<Rightarrow> string \<Rightarrow> int \<Rightarrow> int \<Rightarrow> py_error + string" where
  "read_chunk fs filepath start sz =
     (case fs filepath of
        None \<Rightarrow> Inl FileNotFoundError
      | Some content \<Rightarrow>
          (if start < 0 then Inl ValueError
           else (let text = universal_newlines (drop (nat start) content)
                 in Inr (if sz < 0 then text else take (nat sz) text))))"

text \<open>\<^verbatim>\<open>lines = chunk.strip().split("\n")\<close>\<close>

definition chunk_lines :: "string \<Rightarrow> string list" where
  "chunk_lines chunk = split_scan [CHR 0x0A] [] (py_strip chunk)"

text \<open>The \<^verbatim>\<open>metrics\<close> dictionary of \<^verbatim>\<open>process_chunk\<close>, with its three keys.\<close>

record metrics =
  error_count :: int
  response_times :: "int list"
  request_count :: int

definition metrics0 :: metrics where
  "metrics0 = \<lparr>error_count = 0, response_times = [], request_count = 0\<rparr>"

text \<open>\<^verbatim>\<open>int(line.split("in")[-1].strip("ms"))\<close>: the text after the last \<^verbatim>\<open>in\<close> of the
  line, without leading and trailing \<^verbatim>\<open>m\<close> and \<^verbatim>\<open>s\<close>, read as an integer.\<close>

definition time_taken :: "string \<Rightarrow> int option" where
  "time_taken line = py_int (py_strip_chars ''ms'' (last (split_scan ''in'' [] line)))"

text \<open>The two tests of the loop body: \<^verbatim>\<open>"ERROR" in line\<close> and
  \<^verbatim>\<open>"Request processed in" in line\<close>.\<close>

definition is_error_line :: "string \<Rightarrow> bool" where
  "is_error_line line = py_in ''ERROR'' line"

definition is_request_line :: "string \<Rightarrow> bool" where
  "is_request_line line = py_in ''Request processed in'' line"

text \<open>One pass of the loop body (lines 26 to 31 of worker.py).\<close>

definition scan_line :: "metrics \<Rightarrow> string \<Rightarrow> py_error + metrics" where
  "scan_line m line =
     (let m1 = (if is_error_line line then m\<lparr>error_count := error_count m + 1\<rparr> else m)
      in if is_request_line line
         then (case time_taken line of
                 None \<Rightarrow> Inl ValueError
               | Some t \<Rightarrow> Inr (m1\<lparr>response_times := response_times m1 @ [t],
                                   request_count := request_count m1 + 1\<rparr>))
         else Inr m1)"

text \<open>The \<^verbatim>\<open>for line in lines\<close> loop: the first exception ends it.\<close>

fun scan_lines :: "metrics \<Rightarrow> string list \<Rightarrow> py_error + metrics" where
  "scan_lines m [] = Inr m"
| "scan_lines m (line # rest) =
     (case scan_line m line of Inl e \<Rightarrow> Inl e | Inr m' \<Rightarrow> scan_lines m' rest)"

text \<open>The dictionary \<^verbatim>\<open>process_chunk\<close> returns.\<close>

record report =
  error_rate :: rat
  avg_response_time :: rat
  report_request_count :: int

text \<open>Lines 33 to 38: the average is computed first, guarded by the test that the
  sample list is not empty; then the error rate over \<^verbatim>\<open>len(lines)\<close>.\<close>

definition make_report :: "string list \<Rightarrow> metrics \<Rightarrow> py_error + report" where
  "make_report lines m =
     (case (if response_times m \<noteq> []
            then true_div (sum_list (response_times m)) (int (length (response_times m)))
            else Inr 0) of
        Inl e \<Rightarrow> Inl e
      | Inr avg \<Rightarrow>
          (case true_div (error_count m) (int (length lines)) of
             Inl e \<Rightarrow> Inl e
           | Inr rate \<Rightarrow> Inr \<lparr>error_rate = rate, avg_response_time = avg,
                               report_request_count = request_count m\<rparr>))"

definition process_lines :: "string list \<Rightarrow> py_error + report" where
  "process_lines lines =
     (case scan_lines metrics0 lines of Inl e \<Rightarrow> Inl e | Inr m \<Rightarrow> make_report lines m)"

definition process_chunk :: "filesystem \<Rightarrow> string \<Rightarrow> int \<Rightarrow> int \<Rightarrow> py_error + report" where
  "process_chunk fs filepath start sz =
     (case read_chunk fs filepath start sz of
        Inl e \<Rightarrow> Inl e
      | Inr chunk \<Rightarrow> process_lines (chunk_lines chunk))"

section \<open>coordinator.py: Coordinator\<close>

text \<open>
  \<^verbatim>\<open>self.workers\<close> and \<^verbatim>\<open>self.results\<close> are dictionaries. A dictionary is an
  association list with distinct keys, in insertion order (the order in which
  \<^verbatim>\<open>.items()\<close> iterates). The value stored for a worker is itself a dictionary;
  the only key the source reads from it is \<^verbatim>\<open>"filepath"\<close>.
\<close>

type_synonym worker_data = "(string \<times> string) list"

record coordinator =
  workers :: "(string \<times> worker_data) list"
  results :: "(string \<times> report) list"
  port :: int

text \<open>\<^verbatim>\<open>Coordinator.__init__\<close>\<close>

definition init_coordinator :: "int \<Rightarrow> coordinator" where
  "init_coordinator p = \<lparr>workers = [], results = [], port = p\<rparr>"

text \<open>
  The arguments of one call of \<^verbatim>\<open>self.assign_task\<close>.
\<close>

record assignment =
  a_worker_id :: string
  a_filepath :: string
  a_start :: int
  a_chunk_size :: int

text \<open>
  coordinator.py has no \<^verbatim>\<open>import os\<close>, and neither the class nor
  \<^verbatim>\<open>__init__\<close> defines \<^verbatim>\<open>assign_task\<close>. Whether the global name \<^verbatim>\<open>os\<close> is
  bound and whether the coordinator has an attribute \<^verbatim>\<open>assign_task\<close> when a
  method runs is the environment of the call; \<open>repository\<close> is the environment of
  the repository as it stands, where both are missing: reading \<^verbatim>\<open>os\<close> raises
  NameError and reading \<^verbatim>\<open>self.assign_task\<close> raises AttributeError. A bound
  \<^verbatim>\<open>assign_task\<close> is given by its outcome for the arguments of a call (\<open>None\<close>
  when it returns, the exception when it raises) and is taken not to touch the
  registry.
\<close>

record env =
  os_bound :: bool
  assign_task :: "(assignment \<Rightarrow> py_error option) option"

definition repository :: env where
  "repository = \<lparr>os_bound = False, assign_task = None\<rparr>"

text \<open>An environment in which \<^verbatim>\<open>os\<close> has been bound and \<^verbatim>\<open>assign_task\<close> is a
  method that returns; it is not the repository's.\<close>

definition injected :: env where
  "injected = \<lparr>os_bound = True, assign_task = Some (\<lambda>a. None)\<rparr>"

text \<open>Two registries used as examples: two and three workers, each entry naming the
  file \<^verbatim>\<open>log\<close>.\<close>

definition two_workers :: coordinator where
  "two_workers =
     \<lparr>workers = [(''w1'', [(''filepath'', ''log'')]), (''w2'', [(''filepath'', ''log'')])],
      results = [], port = 8000\<rparr>"

definition three_workers :: coordinator where
  "three_workers =
     \<lparr>workers = [(''w1'', [(''filepath'', ''log'')]), (''w2'', [(''filepath'', ''log'')]),
                 (''w3'', [(''filepath'', ''log'')])],
      results = [], port = 8000\<rparr>"

text \<open>\<^verbatim>\<open>os.path.getsize\<close>: the length of the content, or an OSError for a missing
  path.\<close>

definition getsize :: "filesystem \<Rightarrow> string \<Rightarrow> py_error + int" where
  "getsize fs filepath =
     (case fs filepath of None \<Rightarrow> Inl FileNotFoundError
      | Some content \<Rightarrow> Inr (int (length content)))"

text \<open>Python's \<^verbatim>\<open>a // b\<close> on integers: floor division, as \<open>div\<close> on \<^typ>\<open>int\<close>.\<close>

definition floor_div :: "int \<Rightarrow> int \<Rightarrow> py_error + int" where
  "floor_div a b = (if b = 0 then Inl ZeroDivisionError else Inr (a div b))"

text \<open>
  A method's outcome is the exception it raised (\<open>None\<close> when it returned) together
  with the calls of \<^verbatim>\<open>assign_task\<close> it made, in call order; a call that raises is
  the last of the list.

  The loop of \<^verbatim>\<open>distribute_work\<close> (lines 23 to 26) over the items of the registry,
  with the running \<^verbatim>\<open>start\<close>: \<^verbatim>\<open>end\<close> is computed, then the attribute
  \<^verbatim>\<open>self.assign_task\<close> is read and called.
\<close>

fun assign_loop ::
  "env \<Rightarrow> (string \<times> worker_data) list \<Rightarrow> string \<Rightarrow> int \<Rightarrow> int \<Rightarrow> py_error option \<times> assignment list" where
  "assign_loop e [] filepath start chunk_size = (None, [])"
| "assign_loop e ((worker_id, worker_data) # rest) filepath start chunk_size =
     (let end = start + chunk_size
      in (case assign_task e of
            None \<Rightarrow> (Some AttributeError, [])
          | Some call \<Rightarrow>
              (let a = \<lparr>a_worker_id = worker_id, a_filepath = filepath, a_start = start,
                        a_chunk_size = chunk_size\<rparr>
               in (case call a of
                     Some err \<Rightarrow> (Some err, [a])
                   | None \<Rightarrow>
                       (case assign_loop e rest filepath end chunk_size of
                          (raised, calls) \<Rightarrow> (raised, a # calls))))))"

text \<open>\<^verbatim>\<open>distribute_work\<close>: line 19 reads \<^verbatim>\<open>os\<close> first, line 20 divides, then the
  loop runs.\<close>

definition distribute_work ::
  "env \<Rightarrow> filesystem \<Rightarrow> coordinator \<Rightarrow> string \<Rightarrow> py_error option \<times> assignment list" where
  "distribute_work e fs self filepath =
     (if \<not> os_bound e then (Some NameError, [])
      else (case getsize fs filepath of
              Inl err \<Rightarrow> (Some err, [])
            | Inr file_size \<Rightarrow>
                (case floor_div file_size (int (length (workers self))) of
                   Inl err \<Rightarrow> (Some err, [])
                 | Inr chunk_size \<Rightarrow> assign_loop e (workers self) filepath 0 chunk_size)))"

text \<open>\<^verbatim>\<open>d[key]\<close> and \<^verbatim>\<open>d.pop(key)\<close> raise KeyError for a missing key.\<close>

definition dict_get :: "('k \<times> 'v) list \<Rightarrow> 'k \<Rightarrow> py_error + 'v" where
  "dict_get d k = (case map_of d k of None \<Rightarrow> Inl KeyError | Some v \<Rightarrow> Inr v)"

definition dict_pop :: "('k \<times> 'v) list \<Rightarrow> 'k \<Rightarrow> py_error + ('v \<times> ('k \<times> 'v) list)" where
  "dict_pop d k =
     (case map_of d k of None \<Rightarrow> Inl KeyError
      | Some v \<Rightarrow> Inr (v, filter (\<lambda>kv. fst kv \<noteq> k) d))"

text \<open>
  \<^verbatim>\<open>handle_worker_failure\<close> returns the coordinator as the call leaves it, together
  with the outcome. The registry entry is popped before anything else, so it stays
  removed when a later step raises; \<^verbatim>\<open>failed_task["filepath"]\<close> is evaluated
  before \<^verbatim>\<open>distribute_work\<close> is entered.
\<close>

definition handle_worker_failure ::
  "env \<Rightarrow> filesystem \<Rightarrow> coordinator \<Rightarrow> string
     \<Rightarrow> coordinator \<times> py_error option \<times> assignment list" where
  "handle_worker_failure e fs self worker_id =
     (case dict_pop (workers self) worker_id of
        Inl err \<Rightarrow> (self, Some err, [])
      | Inr (failed_task, remaining) \<Rightarrow>
          (let self' = self\<lparr>workers := remaining\<rparr>
           in (case dict_get failed_task ''filepath'' of
                 Inl err \<Rightarrow> (self', Some err, [])
               | Inr filepath \<Rightarrow> (self', distribute_work e fs self' filepath))))"

section \<open>Properties of a partition into byte ranges\<close>

text \<open>The (offset, length) pairs handed to the workers.\<close>

definition ranges :: "assignment list \<Rightarrow> (int \<times> int) list" where
  "ranges as = map (\<lambda>a. (a_start a, a_chunk_size a)) as"



text \<open>Each range starts where the one before it ends, the first at \<open>pos\<close>.\<close>

fun contiguous_from :: "int \<Rightarrow> (int \<times> int) list \<Rightarrow> bool" where
  "contiguous_from pos [] = True"
| "contiguous_from pos (r # rs) = (fst r = pos \<and> contiguous_from (pos + snd r) rs)"




section \<open>Results and the aggregate, from the spec\<close>

text \<open>Modelled from the spec: the Result of a chunk (sections 3 and 4.6: error count,
  ordered response-time samples, request count, source line count). The repository's
  \<^verbatim>\<open>process_chunk\<close> returns only the error rate and the average derived from
  them; the counts taken here are those of its \<^verbatim>\<open>metrics\<close> dictionary and
  \<^verbatim>\<open>len(lines)\<close>.\<close>

record chunk_result =
  r_error_count :: int
  r_response_times :: "int list"
  r_request_count :: int
  r_line_count :: int




text \<open>Modelled from the spec: the AggregateMetric of sections 3 and 4.5; the repository
  has no aggregation (\<^verbatim>\<open>self.results\<close> is never written or read). A quotient whose
  denominator is 0 has no value in the spec and is \<open>None\<close> here. The per-result
  average is the worker's: the sum of the samples over their number, 0 without
  samples.\<close>

record aggregate_metric =
  global_error_rate :: "rat option"
  global_avg_response_time :: "rat option"
  global_request_count :: int

definition ratio :: "rat \<Rightarrow> rat \<Rightarrow> rat option" where
  "ratio a b = (if b = 0 then None else Some (a / b))"

definition result_average :: "chunk_result \<Rightarrow> rat" where
  "result_average r =
     (if r_response_times r = [] then 0
      else of_int (sum_list (r_response_times r)) / of_int (int (length (r_response_times r))))"

definition aggregate :: "chunk_result list \<Rightarrow> aggregate_metric" where
  "aggregate rs =
     \<lparr>global_error_rate =
        ratio (of_int (sum_list (map r_error_count rs))) (of_int (sum_list (map r_line_count rs))),
      global_avg_response_time =
        ratio (sum_list (map (\<lambda>r. result_average r * of_int (r_request_count r)) rs))
              (of_int (sum_list (map r_request_count rs))),
      global_request_count = sum_list (map r_request_count rs)\<rparr>"






section \<open>The task lifecycle, from the spec\<close>

text \<open>Modelled from the spec: the Task and Worker records of section 3 and the
  TaskTable; the repository keeps no task, no task state, no owner and no retry count.
  A task-id is the index of the task in the table.\<close>

datatype task_state = Pending | Assigned | InProgress | Completed | FailedPermanently

datatype health = Registered | Idle | Busy | Unhealthy | Failed

record task =
  t_offset :: int
  t_length :: int
  t_retries :: nat
  t_state :: task_state
  t_owner :: "string option"

record worker =
  w_health :: health
  w_task :: "nat option"

record engine =
  tasks :: "task list"
  registry :: "(string \<times> worker) list"
  stored :: "nat \<rightharpoonup> chunk_result"

text \<open>Modelled from the spec: the start of a job (section 3): every task is Pending and
  has no owner.\<close>

definition initial :: "engine \<Rightarrow> bool" where
  "initial s = list_all (\<lambda>t. t_state t = Pending \<and> t_owner t = None) (tasks s)"

text \<open>Modelled from the spec: one matching pass of the Scheduler (section 4.2), absent
  from the repository: the first Pending task in task-id order and an Idle worker
  (the first of the registry); the task becomes Assigned to the worker, the worker
  Busy. Without a Pending task or an Idle worker nothing changes.\<close>

fun first_pending :: "task list \<Rightarrow> nat option" where
  "first_pending [] = None"
| "first_pending (t # ts) =
     (if t_state t = Pending then Some 0 else map_option Suc (first_pending ts))"

fun first_idle :: "(string \<times> worker) list \<Rightarrow> string option" where
  "first_idle [] = None"
| "first_idle (kw # rest) = (if w_health (snd kw) = Idle then Some (fst kw) else first_idle rest)"

definition set_worker :: "string \<Rightarrow> (worker \<Rightarrow> worker) \<Rightarrow> (string \<times> worker) list \<Rightarrow> (string \<times> worker) list" where
  "set_worker w f reg = map (\<lambda>kw. if fst kw = w then (fst kw, f (snd kw)) else kw) reg"

definition schedule :: "engine \<Rightarrow> engine" where
  "schedule s =
     (case first_pending (tasks s) of
        None \<Rightarrow> s
      | Some i \<Rightarrow>
          (case first_idle (registry s) of
             None \<Rightarrow> s
           | Some w \<Rightarrow>
               s\<lparr>tasks := (tasks s)[i := (tasks s ! i)\<lparr>t_state := Assigned, t_owner := Some w\<rparr>],
                 registry := set_worker w (\<lambda>x. x\<lparr>w_health := Busy, w_task := Some i\<rparr>) (registry s)\<rparr>))"

text \<open>Modelled from the spec: section 3 lists InProgress between Assigned and Completed
  and names no operation for the transition; it is taken here as the owner starting
  the task it was assigned, which keeps the owner.\<close>

definition begin_work :: "engine \<Rightarrow> nat \<Rightarrow> string \<Rightarrow> engine" where
  "begin_work s T W =
     (if T < length (tasks s) \<and> t_state (tasks s ! T) = Assigned \<and> t_owner (tasks s ! T) = Some W
      then s\<lparr>tasks := (tasks s)[T := (tasks s ! T)\<lparr>t_state := InProgress\<rparr>]\<rparr>
      else s)"

text \<open>Modelled from the spec: result acceptance by the ResultAggregator (section 4.5),
  absent from the repository. A result for a Completed task is discarded; a result for
  an Assigned or InProgress task from its current owner is stored, the task becomes
  Completed and the owner Idle; any other result is discarded.\<close>

definition accept_result :: "engine \<Rightarrow> nat \<Rightarrow> string \<Rightarrow> chunk_result \<Rightarrow> engine" where
  "accept_result s T W r =
     (if T < length (tasks s)
      then (if t_state (tasks s ! T) = Completed then s
            else if (t_state (tasks s ! T) = Assigned \<or> t_state (tasks s ! T) = InProgress)
                    \<and> t_owner (tasks s ! T) = Some W
            then s\<lparr>tasks := (tasks s)[T := (tasks s ! T)\<lparr>t_state := Completed\<rparr>],
                   registry := set_worker W (\<lambda>x. x\<lparr>w_health := Idle, w_task := None\<rparr>) (registry s),
                   stored := (stored s)(T \<mapsto> r)\<rparr>
            else s)
      else s)"

text \<open>
  Failure recovery is in the repository: \<^verbatim>\<open>Coordinator.handle_worker_failure\<close>
  (coordinator.py lines 28 to 32). Its effect on the registry, carried over to the
  registry of the task table: the entry of the worker is popped (for an unknown
  worker-id the pop raises KeyError and nothing changes). What follows the pop raises
  or calls \<^verbatim>\<open>assign_task\<close>; in the repository as it stands it raises, and no task
  is touched, the repository having no task table. Lemma \<open>drop_worker_keys\<close> below
  relates the worker-ids left to those \<open>handle_worker_failure\<close> leaves.
\<close>

definition drop_worker :: "engine \<Rightarrow> string \<Rightarrow> engine" where
  "drop_worker s W =
     (case map_of (registry s) W of
        None \<Rightarrow> s
      | Some w \<Rightarrow> s\<lparr>registry := filter (\<lambda>kw. fst kw \<noteq> W) (registry s)\<rparr>)"

text \<open>Modelled from the spec: the aggregate over the stored results (section 3: a fold
  over the accepted results, one per task-id).\<close>

definition aggregate_of :: "engine \<Rightarrow> aggregate_metric" where
  "aggregate_of s = aggregate (List.map_filter (stored s) [0..<length (tasks s)])"




text \<open>A job of two tasks and two idle workers, before any scheduling; the theorems
  on the task lifecycle are run on it.\<close>

definition two_task_job :: engine where
  "two_task_job =
     \<lparr>tasks = [\<lparr>t_offset = 0, t_length = 5, t_retries = 0, t_state = Pending, t_owner = None\<rparr>,
               \<lparr>t_offset = 5, t_length = 5, t_retries = 0, t_state = Pending, t_owner = None\<rparr>],
      registry = [(''w1'', \<lparr>w_health = Idle, w_task = None\<rparr>),
                  (''w2'', \<lparr>w_health = Idle, w_task = None\<rparr>)],
      stored = Map.empty\<rparr>"

section \<open>The partition made by distribute_work\<close>





lemma assign_loop_contiguous: "contiguous_from st (ranges (snd (assign_loop e ws fp st cs)))"
  by (induction e ws fp st cs rule: assign_loop.induct)
     (auto simp: Let_def ranges_def split: option.splits prod.splits)

lemma assign_loop_args:
  "a \<in> set (snd (assign_loop e ws fp st cs)) \<Longrightarrow> a_chunk_size a = cs \<and> a_filepath a = fp"
  by (induction e ws fp st cs rule: assign_loop.induct)
     (auto simp: Let_def split: option.splits prod.splits)

lemma assign_loop_workers:
  "map a_worker_id (snd (assign_loop e ws fp st cs))
     = take (length (snd (assign_loop e ws fp st cs))) (map fst ws)"
  by (induction e ws fp st cs rule: assign_loop.induct)
     (auto simp: Let_def split: option.splits prod.splits)



lemma assign_loop_bound:
  "assign_task e = Some (\<lambda>a. None) \<Longrightarrow>
     assign_loop e ws fp st cs
       = (None, map (\<lambda>i. \<lparr>a_worker_id = fst (ws ! i), a_filepath = fp,
                            a_start = st + int i * cs, a_chunk_size = cs\<rparr>) [0..<length ws])"
proof (induction ws arbitrary: st)
  case Nil
  then show ?case by simp
next
  case (Cons w ws)
  obtain k d where w: "w = (k, d)" by (cases w)
  have "map (\<lambda>i. \<lparr>a_worker_id = fst ((w # ws) ! i), a_filepath = fp,
                            a_start = st + int i * cs, a_chunk_size = cs\<rparr>) [0..<length (w # ws)]
        = \<lparr>a_worker_id = k, a_filepath = fp, a_start = st, a_chunk_size = cs\<rparr>
          # map (\<lambda>i. \<lparr>a_worker_id = fst (ws ! i), a_filepath = fp,
                            a_start = st + cs + int i * cs, a_chunk_size = cs\<rparr>) [0..<length ws]"
    by (simp add: w upt_conv_Cons map_Suc_upt [symmetric] algebra_simps del: upt_Suc)
  then show ?case using Cons.IH [OF Cons.prems, of "st + cs"] Cons.prems
    by (simp add: w Let_def)
qed


lemma distribute_work_loop:
  assumes "os_bound e" and "fs filepath = Some content" and "workers self \<noteq> []"
  shows "distribute_work e fs self filepath
           = assign_loop e (workers self) filepath 0
               (int (length content) div int (length (workers self)))"
  using assms by (simp add: distribute_work_def getsize_def floor_div_def)

lemma distribute_work_empty:
  assumes "workers self = []"
  shows "distribute_work e fs self filepath =
           (if \<not> os_bound e then (Some NameError, [])
            else (case fs filepath of None \<Rightarrow> (Some FileNotFoundError, [])
                  | Some c \<Rightarrow> (Some ZeroDivisionError, [])))"
  using assms by (simp add: distribute_work_def getsize_def floor_div_def split: option.splits)

lemma distribute_work_calls:
  "snd (distribute_work e fs self filepath) = []
   \<or> (\<exists>content. os_bound e \<and> fs filepath = Some content \<and> workers self \<noteq> []
        \<and> distribute_work e fs self filepath
            = assign_loop e (workers self) filepath 0
                (int (length content) div int (length (workers self))))"
proof (cases "os_bound e \<and> fs filepath \<noteq> None \<and> workers self \<noteq> []")
  case True
  then show ?thesis using distribute_work_loop by fastforce
next
  case False
  then have "snd (distribute_work e fs self filepath) = []"
    by (auto simp: distribute_work_def getsize_def floor_div_def split: option.splits)
  then show ?thesis by simp
qed



text \<open>The definitions unfolded to run \<^verbatim>\<open>distribute_work\<close> on a concrete input.\<close>

lemmas run_defs = distribute_work_def getsize_def floor_div_def repository_def injected_def
  two_workers_def three_workers_def



text \<open>
  Claim C9, as amended. With an empty registry \<^verbatim>\<open>distribute_work\<close> raises, in every
  environment, and passes no range; it returns only with a non-empty registry. The
  exception is the ZeroDivisionError of the division in line 20 whenever line 19 has
  found \<^verbatim>\<open>os\<close> bound and the file present.
\<close>

theorem distribute_work_no_workers:
  "(workers self = [] \<longrightarrow>
      fst (distribute_work e fs self filepath) \<noteq> None
      \<and> snd (distribute_work e fs self filepath) = [])
   \<and> (fst (distribute_work e fs self filepath) = None \<longrightarrow> workers self \<noteq> [])
   \<and> (os_bound e \<and> fs filepath \<noteq> None \<and> workers self = [] \<longrightarrow>
        fst (distribute_work e fs self filepath) = Some ZeroDivisionError)"
proof -
  have a: "workers self = [] \<Longrightarrow> fst (distribute_work e fs self filepath) \<noteq> None
      \<and> snd (distribute_work e fs self filepath) = []"
    by (simp add: distribute_work_empty split: option.splits)
  have b: "os_bound e \<Longrightarrow> fs filepath \<noteq> None \<Longrightarrow> workers self = [] \<Longrightarrow>
        fst (distribute_work e fs self filepath) = Some ZeroDivisionError"
    by (auto simp: distribute_work_empty split: option.splits)
  from a b show ?thesis by blast
qed

text \<open>The theorem at the freshly constructed coordinator, whose registry is empty, in
  the repository as it stands and with \<^verbatim>\<open>os\<close> bound.\<close>

theorem distribute_work_no_workers_witness:
  "workers (init_coordinator 8000) = []
   \<and> fst (distribute_work repository [''log'' \<mapsto> ''ab\<newline>cd\<newline>''] (init_coordinator 8000) ''log'') \<noteq> None
   \<and> snd (distribute_work repository [''log'' \<mapsto> ''ab\<newline>cd\<newline>''] (init_coordinator 8000) ''log'') = []
   \<and> fst (distribute_work injected [''log'' \<mapsto> ''ab\<newline>cd\<newline>''] (init_coordinator 8000) ''log'') = Some ZeroDivisionError"
proof -
  have h: "workers (init_coordinator 8000) = []" by (simp add: init_coordinator_def)
  have b: "os_bound injected" by (simp add: injected_def)
  have c: "[''log'' \<mapsto> ''ab\<newline>cd\<newline>''] ''log'' \<noteq> None" by simp
  note t = distribute_work_no_workers [of "init_coordinator 8000" repository "[''log'' \<mapsto> ''ab\<newline>cd\<newline>'']" "''log''"]
  note u = distribute_work_no_workers [of "init_coordinator 8000" injected "[''log'' \<mapsto> ''ab\<newline>cd\<newline>'']" "''log''"]
  have r1: "fst (distribute_work repository [''log'' \<mapsto> ''ab\<newline>cd\<newline>''] (init_coordinator 8000) ''log'') \<noteq> None"
    using t h by blast
  have r2: "snd (distribute_work repository [''log'' \<mapsto> ''ab\<newline>cd\<newline>''] (init_coordinator 8000) ''log'') = []"
    using t h by blast
  have r3: "fst (distribute_work injected [''log'' \<mapsto> ''ab\<newline>cd\<newline>''] (init_coordinator 8000) ''log'') = Some ZeroDivisionError"
    using u h b c by blast
  from h r1 r2 r3 show ?thesis by (intro conjI)
qed

text \<open>
  Claim C9 as stated fails: in the repository as it stands the call with an empty
  registry and an existing file raises NameError at line 19; the division of line 20
  is not reached.
\<close>

theorem distribute_work_no_workers_counterexample:
  "workers (init_coordinator 8000) = []
   \<and> [''log'' \<mapsto> ''ab\<newline>cd\<newline>''] ''log'' = Some ''ab\<newline>cd\<newline>''
   \<and> distribute_work repository [''log'' \<mapsto> ''ab\<newline>cd\<newline>''] (init_coordinator 8000) ''log'' = (Some NameError, [])
   \<and> fst (distribute_work repository [''log'' \<mapsto> ''ab\<newline>cd\<newline>''] (init_coordinator 8000) ''log'') \<noteq> Some ZeroDivisionError"
  by (simp add: run_defs init_coordinator_def)

section \<open>process_chunk\<close>

lemma split_scan_nonempty: "split_scan sep acc s \<noteq> []"
  by (induction sep acc s rule: split_scan.induct) simp_all

lemma chunk_lines_nonempty: "chunk_lines chunk \<noteq> []"
  by (simp add: chunk_lines_def split_scan_nonempty)

lemma py_strip_blank:
  assumes "list_all py_isspace s"
  shows "py_strip s = []"
  using assms
  by (auto simp: py_strip_def py_strip_by_def list_all_iff dest: set_dropWhileD)

lemma chunk_lines_blank: "list_all py_isspace chunk \<Longrightarrow> chunk_lines chunk = [[]]"
  by (simp add: chunk_lines_def py_strip_blank)

lemma scan_line_error: "scan_line m line = Inl e \<Longrightarrow> e = ValueError"
  by (auto simp: scan_line_def Let_def split: if_splits option.splits)

lemma scan_lines_error: "scan_lines m ls = Inl e \<Longrightarrow> e = ValueError"
  by (induction ls arbitrary: m) (auto split: sum.splits dest: scan_line_error)

lemma read_chunk_error: "read_chunk fs filepath start sz = Inl e \<Longrightarrow> e \<noteq> ZeroDivisionError"
  by (auto simp: read_chunk_def Let_def split: option.splits if_splits)

lemma make_report_Inr:
  assumes "ls \<noteq> []"
  shows "make_report ls m =
           Inr \<lparr>error_rate = of_int (error_count m) / of_int (int (length ls)),
                avg_response_time =
                  (if response_times m \<noteq> []
                   then of_int (sum_list (response_times m))
                          / of_int (int (length (response_times m)))
                   else 0),
                report_request_count = request_count m\<rparr>"
  using assms by (simp add: make_report_def true_div_def)




text \<open>
  Claim C10. \<^verbatim>\<open>process_chunk\<close> never raises ZeroDivisionError: the list of lines of
  any chunk has at least one element, for a chunk of white space only (the empty chunk
  included) it is the list of the one empty line and the report is all zero, and with
  an empty sample list the average is 0 without a division.
\<close>

theorem process_chunk_no_zero_division:
  "process_chunk fs filepath start sz \<noteq> Inl ZeroDivisionError
   \<and> 1 \<le> length (chunk_lines chunk)
   \<and> (list_all py_isspace chunk \<longrightarrow>
        chunk_lines chunk = [[]]
        \<and> process_lines (chunk_lines chunk)
            = Inr \<lparr>error_rate = 0, avg_response_time = 0, report_request_count = 0\<rparr>)
   \<and> (response_times m = [] \<longrightarrow>
        (\<exists>r. make_report (chunk_lines chunk) m = Inr r \<and> avg_response_time r = 0))"
proof -
  have a: "process_chunk fs filepath start sz \<noteq> Inl ZeroDivisionError"
  proof
    assume z: "process_chunk fs filepath start sz = Inl ZeroDivisionError"
    show False
    proof (cases "read_chunk fs filepath start sz")
      case (Inl e)
      then show False using z read_chunk_error [OF Inl] by (simp add: process_chunk_def)
    next
      case (Inr c)
      show False
      proof (cases "scan_lines metrics0 (chunk_lines c)")
        case (Inl e)
        then show False using z Inr scan_lines_error [OF Inl]
          by (simp add: process_chunk_def process_lines_def)
      next
        case (Inr m')
        then show False using z \<open>read_chunk fs filepath start sz = Inr c\<close>
          by (simp add: process_chunk_def process_lines_def
              make_report_Inr [OF chunk_lines_nonempty])
      qed
    qed
  qed
  have b: "1 \<le> length (chunk_lines chunk)"
    using chunk_lines_nonempty [of chunk] by (cases "chunk_lines chunk") simp_all
  have c: "list_all py_isspace chunk \<longrightarrow>
        chunk_lines chunk = [[]]
        \<and> process_lines (chunk_lines chunk)
            = Inr \<lparr>error_rate = 0, avg_response_time = 0, report_request_count = 0\<rparr>"
    by (simp add: chunk_lines_blank process_lines_def scan_line_def is_error_line_def
        is_request_line_def metrics0_def make_report_def true_div_def)
  have d: "response_times m = [] \<longrightarrow>
        (\<exists>r. make_report (chunk_lines chunk) m = Inr r \<and> avg_response_time r = 0)"
    by (simp add: make_report_Inr [OF chunk_lines_nonempty])
  from a b c d show ?thesis by blast
qed

text \<open>The theorem at a chunk of a space, a line feed and a space.\<close>

theorem process_chunk_no_zero_division_witness:
  "list_all py_isspace '' \<newline> ''
   \<and> process_chunk [''log'' \<mapsto> '' \<newline> ''] ''log'' 0 3 \<noteq> Inl ZeroDivisionError
   \<and> chunk_lines '' \<newline> '' = [[]]
   \<and> process_lines (chunk_lines '' \<newline> '')
       = Inr \<lparr>error_rate = 0, avg_response_time = 0, report_request_count = 0\<rparr>"
proof -
  have blank: "list_all py_isspace '' \<newline> ''"
    by (simp add: py_isspace_def)
  show ?thesis
    using blank
      process_chunk_no_zero_division [of "[''log'' \<mapsto> '' \<newline> '']" "''log''" 0 3 "'' \<newline> ''" metrics0]
    by blast
qed











section \<open>handle_worker_failure\<close>

lemma map_of_filter_other:
  "w \<noteq> k \<Longrightarrow> map_of (filter (\<lambda>kv. fst kv \<noteq> k) d) w = map_of d w"
  by (induction d) auto

lemma registry_after_failure:
  "workers (fst (handle_worker_failure e fs self worker_id)) =
     (case map_of (workers self) worker_id of
        None \<Rightarrow> workers self
      | Some d \<Rightarrow> filter (\<lambda>kv. fst kv \<noteq> worker_id) (workers self))"
  by (simp add: handle_worker_failure_def dict_pop_def dict_get_def Let_def
      split: option.splits sum.splits)

lemma frame_after_failure:
  "results (fst (handle_worker_failure e fs self worker_id)) = results self
   \<and> port (fst (handle_worker_failure e fs self worker_id)) = port self"
  by (simp add: handle_worker_failure_def dict_pop_def dict_get_def Let_def
      split: option.splits sum.splits)

text \<open>
  Claim C8, as amended. \<^verbatim>\<open>handle_worker_failure\<close> pops the failed worker's entry:
  after the call (whether it returns or raises) the registry has no entry for that
  worker-id. The entries of all other workers, the stored results and the port are
  unchanged.
\<close>

theorem handle_worker_failure_deletes_entry:
  "map_of (workers (fst (handle_worker_failure e fs self worker_id))) worker_id = None
   \<and> (\<forall>w. w \<noteq> worker_id \<longrightarrow>
          map_of (workers (fst (handle_worker_failure e fs self worker_id))) w
            = map_of (workers self) w)
   \<and> results (fst (handle_worker_failure e fs self worker_id)) = results self
   \<and> port (fst (handle_worker_failure e fs self worker_id)) = port self"
proof -
  have gone: "map_of (workers (fst (handle_worker_failure e fs self worker_id))) worker_id = None"
  proof (cases "map_of (workers self) worker_id")
    case None
    then show ?thesis by (simp add: registry_after_failure)
  next
    case (Some d)
    have "worker_id \<notin> fst ` set (filter (\<lambda>kv. fst kv \<noteq> worker_id) (workers self))"
      by auto
    then show ?thesis
      using Some by (simp add: registry_after_failure map_of_eq_None_iff)
  qed
  have others: "\<forall>w. w \<noteq> worker_id \<longrightarrow>
          map_of (workers (fst (handle_worker_failure e fs self worker_id))) w
            = map_of (workers self) w"
    by (simp add: registry_after_failure map_of_filter_other split: option.splits)
  from gone others frame_after_failure show ?thesis by blast
qed

text \<open>The definitions unfolded to run \<^verbatim>\<open>handle_worker_failure\<close> on a concrete
  input.\<close>

lemmas failure_defs = handle_worker_failure_def dict_pop_def dict_get_def

text \<open>The theorem at a registry of two workers, the second of which fails, in the
  repository as it stands.\<close>

theorem handle_worker_failure_deletes_entry_witness:
  "map_of (workers (fst (handle_worker_failure repository [''log'' \<mapsto> ''ab\<newline>cd\<newline>'']
       two_workers ''w2''))) ''w2'' = None
   \<and> map_of (workers (fst (handle_worker_failure repository [''log'' \<mapsto> ''ab\<newline>cd\<newline>'']
       two_workers ''w2''))) ''w1'' = Some [(''filepath'', ''log'')]"
  using handle_worker_failure_deletes_entry [of repository "[''log'' \<mapsto> ''ab\<newline>cd\<newline>'']"
       two_workers "''w2''"]
  by (simp add: two_workers_def)

text \<open>
  Claim C8 as stated fails: worker \<open>w2\<close> has an entry before its failure is handled
  and none afterwards; the call itself ends in the NameError of
  \<^verbatim>\<open>distribute_work\<close>.
\<close>

theorem handle_worker_failure_deletes_entry_counterexample:
  "map_of (workers two_workers) ''w2'' = Some [(''filepath'', ''log'')]
   \<and> handle_worker_failure repository [''log'' \<mapsto> ''ab\<newline>cd\<newline>'']
       two_workers ''w2''
     = (\<lparr>workers = [(''w1'', [(''filepath'', ''log'')])], results = [], port = 8000\<rparr>, Some NameError, [])
   \<and> map_of (workers \<lparr>workers = [(''w1'', [(''filepath'', ''log'')])], results = [], port = 8000\<rparr>) ''w2''
     = None"
  by (simp add: failure_defs run_defs)

lemma distribute_work_workers:
  "map a_worker_id (snd (distribute_work e fs self filepath))
     = take (length (snd (distribute_work e fs self filepath))) (map fst (workers self))"
  using distribute_work_calls [of e fs self filepath]
  by (auto simp: assign_loop_workers)

lemma distribute_work_files:
  "a \<in> set (snd (distribute_work e fs self filepath)) \<Longrightarrow> a_filepath a = filepath"
  using distribute_work_calls [of e fs self filepath]
  by (auto simp: assign_loop_args)

lemma ranges_Nil: "ranges [] = []"
  by (simp add: ranges_def)

lemma distribute_work_contiguous:
  "contiguous_from 0 (ranges (snd (distribute_work e fs self filepath)))"
  using distribute_work_calls [of e fs self filepath]
  by (auto simp: assign_loop_contiguous ranges_Nil)

text \<open>
  Claim C5, as amended. For a registered worker whose entry names a file,
  \<^verbatim>\<open>handle_worker_failure\<close> removes the worker from the registry and runs
  \<^verbatim>\<open>distribute_work\<close> on the whole of that file over the remaining registry, in
  every environment: every range it passes to \<^verbatim>\<open>assign_task\<close> goes to a worker
  that is still registered, in registry order from the first one and from offset 0
  without a gap, whatever the workers held before; the failed worker is passed
  nothing. No task state and no retry count are kept.
\<close>

theorem handle_worker_failure_repartitions:
  assumes entry: "map_of (workers self) worker_id = Some failed_task"
      and path: "map_of failed_task ''filepath'' = Some filepath"
  shows "handle_worker_failure e fs self worker_id
           = (self\<lparr>workers := filter (\<lambda>kv. fst kv \<noteq> worker_id) (workers self)\<rparr>,
              distribute_work e fs
                (self\<lparr>workers := filter (\<lambda>kv. fst kv \<noteq> worker_id) (workers self)\<rparr>) filepath)
         \<and> map a_worker_id (snd (snd (handle_worker_failure e fs self worker_id)))
             = take (length (snd (snd (handle_worker_failure e fs self worker_id))))
                 (map fst (filter (\<lambda>kv. fst kv \<noteq> worker_id) (workers self)))
         \<and> worker_id \<notin> set (map a_worker_id (snd (snd (handle_worker_failure e fs self worker_id))))
         \<and> (\<forall>a \<in> set (snd (snd (handle_worker_failure e fs self worker_id))).
               a_filepath a = filepath)
         \<and> contiguous_from 0 (ranges (snd (snd (handle_worker_failure e fs self worker_id))))"
proof -
  define remaining where "remaining = filter (\<lambda>kv. fst kv \<noteq> worker_id) (workers self)"
  define self' where "self' = self\<lparr>workers := remaining\<rparr>"
  define calls where "calls = snd (distribute_work e fs self' filepath)"
  have w': "workers self' = remaining" by (simp add: self'_def)
  have run: "handle_worker_failure e fs self worker_id = (self', distribute_work e fs self' filepath)"
    using entry path
    by (simp add: handle_worker_failure_def dict_pop_def dict_get_def Let_def
        self'_def remaining_def)
  have ids: "map a_worker_id calls = take (length calls) (map fst remaining)"
    using distribute_work_workers [of e fs self' filepath] by (simp add: calls_def w')
  have "set (map a_worker_id calls) \<subseteq> set (map fst remaining)"
    using ids set_take_subset [of "length calls" "map fst remaining"] by simp
  moreover have "worker_id \<notin> set (map fst remaining)" by (auto simp: remaining_def)
  ultimately have notw: "worker_id \<notin> set (map a_worker_id calls)" by blast
  have files: "\<forall>a \<in> set calls. a_filepath a = filepath"
    using distribute_work_files [of _ e fs self' filepath] by (simp add: calls_def)
  have con: "contiguous_from 0 (ranges calls)"
    by (simp add: calls_def distribute_work_contiguous)
  show ?thesis
    using run ids notw files con
    unfolding calls_def self'_def remaining_def by simp
qed

text \<open>
  Claim C5 as stated fails. In the repository as it stands the failure of \<open>w2\<close>
  among three workers ends in NameError with no call of \<^verbatim>\<open>assign_task\<close>: nothing
  of the failed worker's is handed on. With \<^verbatim>\<open>os\<close> bound and an
  \<^verbatim>\<open>assign_task\<close> that returns, the three workers hold (0,4), (4,4), (8,4) of a
  twelve-byte file, and when \<open>w2\<close> fails the workers \<open>w1\<close> and \<open>w3\<close>, which did
  not fail, are passed the new ranges (0,6) and (6,6).
\<close>

theorem handle_worker_failure_repartitions_counterexample:
  "handle_worker_failure repository [''log'' \<mapsto> ''abc\<newline>def\<newline>ghi\<newline>'']
       three_workers ''w2''
     = (\<lparr>workers = [(''w1'', [(''filepath'', ''log'')]), (''w3'', [(''filepath'', ''log'')])],
        results = [], port = 8000\<rparr>, Some NameError, [])
   \<and> distribute_work injected [''log'' \<mapsto> ''abc\<newline>def\<newline>ghi\<newline>'']
       three_workers ''log''
     = (None, [\<lparr>a_worker_id = ''w1'', a_filepath = ''log'', a_start = 0, a_chunk_size = 4\<rparr>,
               \<lparr>a_worker_id = ''w2'', a_filepath = ''log'', a_start = 4, a_chunk_size = 4\<rparr>,
               \<lparr>a_worker_id = ''w3'', a_filepath = ''log'', a_start = 8, a_chunk_size = 4\<rparr>])
   \<and> snd (handle_worker_failure injected [''log'' \<mapsto> ''abc\<newline>def\<newline>ghi\<newline>'']
       three_workers ''w2'')
     = (None, [\<lparr>a_worker_id = ''w1'', a_filepath = ''log'', a_start = 0, a_chunk_size = 6\<rparr>,
               \<lparr>a_worker_id = ''w3'', a_filepath = ''log'', a_start = 6, a_chunk_size = 6\<rparr>])"
  by (simp add: failure_defs run_defs)

text \<open>The theorem at the same three workers.\<close>

theorem handle_worker_failure_repartitions_witness:
  "map_of (workers three_workers) ''w2'' = Some [(''filepath'', ''log'')]
   \<and> map_of [(''filepath'', ''log'')] ''filepath'' = Some ''log''
   \<and> fst (handle_worker_failure injected [''log'' \<mapsto> ''abc\<newline>def\<newline>ghi\<newline>'']
       three_workers ''w2'')
      = \<lparr>workers = [(''w1'', [(''filepath'', ''log'')]), (''w3'', [(''filepath'', ''log'')])],
        results = [], port = 8000\<rparr>
   \<and> map a_worker_id (snd (snd (handle_worker_failure injected [''log'' \<mapsto> ''abc\<newline>def\<newline>ghi\<newline>'']
       three_workers ''w2''))) = [''w1'', ''w3'']
   \<and> ''w2'' \<notin> set (map a_worker_id (snd (snd (handle_worker_failure injected [''log'' \<mapsto> ''abc\<newline>def\<newline>ghi\<newline>'']
       three_workers ''w2''))))
   \<and> contiguous_from 0 (ranges (snd (snd (handle_worker_failure injected [''log'' \<mapsto> ''abc\<newline>def\<newline>ghi\<newline>'']
       three_workers ''w2''))))
   \<and> snd (snd (handle_worker_failure repository [''log'' \<mapsto> ''abc\<newline>def\<newline>ghi\<newline>'']
       three_workers ''w2'')) = []"
proof -
  have h1: "map_of (workers three_workers) ''w2'' = Some [(''filepath'', ''log'')]"
    by (simp add: three_workers_def)
  have h2: "map_of [(''filepath'', ''log'')] ''filepath'' = Some ''log''" by simp
  note t = handle_worker_failure_repartitions [of three_workers "''w2''" "[(''filepath'', ''log'')]" "''log''"
       injected "[''log'' \<mapsto> ''abc\<newline>def\<newline>ghi\<newline>'']", OF h1 h2]
  have a: "fst (handle_worker_failure injected [''log'' \<mapsto> ''abc\<newline>def\<newline>ghi\<newline>'']
       three_workers ''w2'')
      = \<lparr>workers = [(''w1'', [(''filepath'', ''log'')]), (''w3'', [(''filepath'', ''log'')])],
        results = [], port = 8000\<rparr>"
    using t by (simp add: three_workers_def)
  have b: "''w2'' \<notin> set (map a_worker_id (snd (snd (handle_worker_failure injected [''log'' \<mapsto> ''abc\<newline>def\<newline>ghi\<newline>'']
       three_workers ''w2''))))"
    using t by (elim conjE)
  have c: "contiguous_from 0 (ranges (snd (snd (handle_worker_failure injected [''log'' \<mapsto> ''abc\<newline>def\<newline>ghi\<newline>'']
       three_workers ''w2''))))"
    using t by (elim conjE)
  have d: "map a_worker_id (snd (snd (handle_worker_failure injected [''log'' \<mapsto> ''abc\<newline>def\<newline>ghi\<newline>'']
       three_workers ''w2''))) = [''w1'', ''w3'']"
    by (simp add: failure_defs run_defs)
  have e: "snd (snd (handle_worker_failure repository [''log'' \<mapsto> ''abc\<newline>def\<newline>ghi\<newline>'']
       three_workers ''w2'')) = []"
    by (simp add: failure_defs run_defs)
  from h1 h2 a d b c e show ?thesis by (intro conjI)
qed

section \<open>The aggregate under a split into byte ranges\<close>





























section \<open>The task lifecycle\<close>


lemma keys_filter: "map fst (filter (\<lambda>kw. fst kw \<noteq> W) xs) = filter (\<lambda>k. k \<noteq> W) (map fst xs)"
  by (induction xs) simp_all

lemma map_of_keys:
  "map fst xs = map fst ys \<Longrightarrow> (map_of xs k = None) = (map_of ys k = None)"
proof -
  assume "map fst xs = map fst ys"
  then have "set (map fst xs) = set (map fst ys)" by simp
  then have "fst ` set xs = fst ` set ys" by simp
  then show ?thesis by (simp add: map_of_eq_None_iff)
qed

lemma drop_worker_keys:
  assumes "map fst (registry s) = map fst (workers c)"
  shows "map fst (registry (drop_worker s W))
           = map fst (workers (fst (handle_worker_failure e fs c W)))"
proof (cases "map_of (registry s) W")
  case None
  then have "map_of (workers c) W = None" using map_of_keys [OF assms] by simp
  then show ?thesis using None assms by (simp add: drop_worker_def registry_after_failure)
next
  case (Some w)
  then have "map_of (workers c) W \<noteq> None" using map_of_keys [OF assms, of W] by simp
  then obtain d where "map_of (workers c) W = Some d" by auto
  then show ?thesis using Some assms
    by (simp add: drop_worker_def registry_after_failure keys_filter)
qed














text \<open>The definitions unfolded to run the operations on a concrete task table.\<close>

lemmas engine_defs = two_task_job_def schedule_def set_worker_def accept_result_def
  drop_worker_def begin_work_def initial_def


section \<open>Result acceptance\<close>

lemma accept_result_completed:
  "T < length (tasks s) \<Longrightarrow> t_state (tasks s ! T) = Completed \<Longrightarrow> accept_result s T W r = s"
  by (simp add: accept_result_def)

lemma accept_result_accepted:
  assumes "T < length (tasks s)"
      and "t_state (tasks s ! T) = Assigned \<or> t_state (tasks s ! T) = InProgress"
      and "t_owner (tasks s ! T) = Some W"
  shows "accept_result s T W r =
           s\<lparr>tasks := (tasks s)[T := (tasks s ! T)\<lparr>t_state := Completed\<rparr>],
             registry := set_worker W (\<lambda>x. x\<lparr>w_health := Idle, w_task := None\<rparr>) (registry s),
             stored := (stored s)(T \<mapsto> r)\<rparr>"
  using assms by (auto simp: accept_result_def)

lemma accept_result_cases:
  "accept_result s T W r = s
   \<or> (T < length (tasks (accept_result s T W r))
       \<and> t_state (tasks (accept_result s T W r) ! T) = Completed)"
  by (auto simp: accept_result_def)

lemma accept_result_payload:
  assumes same: "accept_result s T W r = s"
  shows "accept_result s T W r' = s"
proof (cases "T < length (tasks s)
       \<and> (t_state (tasks s ! T) = Assigned \<or> t_state (tasks s ! T) = InProgress)
       \<and> t_owner (tasks s ! T) = Some W")
  case True
  then have "t_state (tasks (accept_result s T W r) ! T) = Completed"
    by (simp add: accept_result_accepted)
  then have "t_state (tasks s ! T) = Completed" by (simp add: same)
  with True show ?thesis by auto
next
  case False
  then show ?thesis by (auto simp: accept_result_def)
qed

lemma map_filter_stored:
  assumes "f T = None" and "distinct xs"
  shows "sum_list (map g (List.map_filter (f(T \<mapsto> r)) xs))
           = sum_list (map g (List.map_filter f xs)) + (if T \<in> set xs then g r else (0::int))"
  using assms(2)
proof (induction xs)
  case Nil
  then show ?case by (simp add: List.map_filter_simps)
next
  case (Cons x xs)
  then show ?case using assms(1)
    by (cases "f x") (auto simp: List.map_filter_simps)
qed

text \<open>
  Claim C4, on the result acceptance modelled from the spec. A result for a task that
  is already Completed leaves the state, hence the stored results and the aggregate,
  unchanged. A report delivered twice has the effect of one delivery. When the first
  report is accepted, the task is Completed with that result stored, any further
  report for the task (from any worker, with any payload) changes nothing, and the
  request count of the aggregate has grown by the result's request count once.
\<close>

theorem accept_result_first_wins:
  "(T < length (tasks s) \<and> t_state (tasks s ! T) = Completed \<longrightarrow>
      accept_result s T W r = s)
   \<and> accept_result (accept_result s T W r) T W r' = accept_result s T W r
   \<and> (T < length (tasks s)
       \<and> (t_state (tasks s ! T) = Assigned \<or> t_state (tasks s ! T) = InProgress)
       \<and> t_owner (tasks s ! T) = Some W \<longrightarrow>
        t_state (tasks (accept_result s T W r) ! T) = Completed
        \<and> stored (accept_result s T W r) T = Some r
        \<and> accept_result (accept_result s T W r) T W' r' = accept_result s T W r
        \<and> stored (accept_result (accept_result s T W r) T W' r') T = Some r
        \<and> aggregate_of (accept_result (accept_result s T W r) T W' r')
            = aggregate_of (accept_result s T W r)
        \<and> (stored s T = None \<longrightarrow>
             global_request_count (aggregate_of (accept_result (accept_result s T W r) T W' r'))
               = global_request_count (aggregate_of s) + r_request_count r))"
proof (intro conjI impI)
  assume "T < length (tasks s) \<and> t_state (tasks s ! T) = Completed"
  then show "accept_result s T W r = s" by (simp add: accept_result_completed)
next
  show "accept_result (accept_result s T W r) T W r' = accept_result s T W r"
    using accept_result_cases [of s T W r]
  proof
    assume same: "accept_result s T W r = s"
    then show ?thesis using accept_result_payload [OF same, of r'] by simp
  next
    assume "T < length (tasks (accept_result s T W r))
       \<and> t_state (tasks (accept_result s T W r) ! T) = Completed"
    then show ?thesis by (simp add: accept_result_completed)
  qed
next
  assume a: "T < length (tasks s)
       \<and> (t_state (tasks s ! T) = Assigned \<or> t_state (tasks s ! T) = InProgress)
       \<and> t_owner (tasks s ! T) = Some W"
  define s1 where "s1 = accept_result s T W r"
  have s1: "s1 = s\<lparr>tasks := (tasks s)[T := (tasks s ! T)\<lparr>t_state := Completed\<rparr>],
             registry := set_worker W (\<lambda>x. x\<lparr>w_health := Idle, w_task := None\<rparr>) (registry s),
             stored := (stored s)(T \<mapsto> r)\<rparr>"
    unfolding s1_def using a by (intro accept_result_accepted) simp_all
  have len: "T < length (tasks s1)" using a by (simp add: s1)
  have fin: "t_state (tasks s1 ! T) = Completed" using a by (simp add: s1)
  have kept: "stored s1 T = Some r" by (simp add: s1)
  have again: "accept_result s1 T W' r' = s1"
    using len fin by (rule accept_result_completed)
  show "t_state (tasks (accept_result s T W r) ! T) = Completed"
    using fin by (simp add: s1_def)
  show "stored (accept_result s T W r) T = Some r"
    using kept by (simp add: s1_def)
  show "accept_result (accept_result s T W r) T W' r' = accept_result s T W r"
    using again by (simp add: s1_def)
  show "stored (accept_result (accept_result s T W r) T W' r') T = Some r"
    using again kept by (simp add: s1_def)
  show "aggregate_of (accept_result (accept_result s T W r) T W' r')
            = aggregate_of (accept_result s T W r)"
    using again by (simp add: s1_def)
  show "global_request_count (aggregate_of (accept_result (accept_result s T W r) T W' r'))
               = global_request_count (aggregate_of s) + r_request_count r"
    if fresh: "stored s T = None"
  proof -
    have "global_request_count (aggregate_of s1)
            = sum_list (map r_request_count
                 (List.map_filter ((stored s)(T \<mapsto> r)) [0..<length (tasks s)]))"
      by (simp add: s1 aggregate_of_def aggregate_def)
    also have "\<dots> = sum_list (map r_request_count (List.map_filter (stored s) [0..<length (tasks s)]))
                     + r_request_count r"
      using a fresh by (simp add: map_filter_stored)
    also have "\<dots> = global_request_count (aggregate_of s) + r_request_count r"
      by (simp add: aggregate_of_def aggregate_def)
    finally show ?thesis using again by (simp add: s1_def)
  qed
qed

text \<open>The theorem on the two-task job: the result of task 0, delivered twice by its
  owner, is stored and counted once.\<close>

theorem accept_result_first_wins_witness:
  "t_state (tasks (schedule two_task_job) ! 0) = Assigned
   \<and> t_owner (tasks (schedule two_task_job) ! 0) = Some ''w1''
   \<and> stored (schedule two_task_job) 0 = None
   \<and> accept_result (accept_result (schedule two_task_job) 0 ''w1''
          \<lparr>r_error_count = 1, r_response_times = [10], r_request_count = 1, r_line_count = 2\<rparr>)
        0 ''w1''
          \<lparr>r_error_count = 1, r_response_times = [10], r_request_count = 1, r_line_count = 2\<rparr>
     = accept_result (schedule two_task_job) 0 ''w1''
          \<lparr>r_error_count = 1, r_response_times = [10], r_request_count = 1, r_line_count = 2\<rparr>
   \<and> global_request_count (aggregate_of
        (accept_result (accept_result (schedule two_task_job) 0 ''w1''
          \<lparr>r_error_count = 1, r_response_times = [10], r_request_count = 1, r_line_count = 2\<rparr>)
        0 ''w1''
          \<lparr>r_error_count = 1, r_response_times = [10], r_request_count = 1, r_line_count = 2\<rparr>))
     = 1"
proof -
  define s1 where "s1 = schedule two_task_job"
  define r1 where "r1 = \<lparr>r_error_count = 1, r_response_times = [10], r_request_count = 1,
                         r_line_count = 2\<rparr>"
  have a: "0 < length (tasks s1)" by (simp add: s1_def engine_defs)
  have b: "t_state (tasks s1 ! 0) = Assigned" by (simp add: s1_def engine_defs)
  have c: "t_owner (tasks s1 ! 0) = Some ''w1''" by (simp add: s1_def engine_defs)
  have d: "stored s1 0 = None" by (simp add: s1_def engine_defs)
  have e: "global_request_count (aggregate_of s1) = 0"
    by (simp add: s1_def engine_defs aggregate_of_def aggregate_def List.map_filter_simps
        upt_conv_Cons)
  have f: "r_request_count r1 = 1" by (simp add: r1_def)
  have g: "accept_result (accept_result s1 0 ''w1'' r1) 0 ''w1'' r1 = accept_result s1 0 ''w1'' r1"
    using accept_result_first_wins [of 0 s1 "''w1''" r1 r1 "''w1''"] by blast
  have h: "global_request_count (aggregate_of (accept_result (accept_result s1 0 ''w1'' r1) 0 ''w1'' r1))
             = global_request_count (aggregate_of s1) + r_request_count r1"
    using accept_result_first_wins [of 0 s1 "''w1''" r1 r1 "''w1''"] a b c d by blast
  show ?thesis
    using b c d g h e f unfolding s1_def r1_def by simp
qed

end
